theory Spec2Isabelle
  imports Main
begin

section \<open>Message payloads\<close>

text \<open>
  The handlers of \<^verbatim>\<open>server.js\<close> receive whatever value the client sent. The model keeps
  the JavaScript value kinds the handlers can tell apart: they test truthiness and read the
  properties \<^verbatim>\<open>driverId\<close> and \<^verbatim>\<open>coordinates\<close>; they never compute with a number, so a
  number is an integer here, with \<^verbatim>\<open>NaN\<close> apart since it is falsy. An object is the list of
  its own properties, the first binding of a key being the effective one.
\<close>

datatype jsval =
    JUndefined
  | JNull
  | JBool bool
  | JNum int
  | JNaN
  | JStr string
  | JObj "(string \<times> jsval) list"

fun truthy :: "jsval \<Rightarrow> bool" where
  "truthy JUndefined = False"
| "truthy JNull = False"
| "truthy (JBool b) = b"
| "truthy (JNum n) = (n \<noteq> 0)"
| "truthy JNaN = False"
| "truthy (JStr s) = (s \<noteq> [])"
| "truthy (JObj fs) = True"

datatype exn = TypeError

text \<open>
  \<^verbatim>\<open>data.key\<close>: reading a property of \<^verbatim>\<open>undefined\<close> or \<^verbatim>\<open>null\<close> throws a TypeError; a
  primitive has no such property; an object yields the property or \<^verbatim>\<open>undefined\<close>.
\<close>

fun get_prop :: "jsval \<Rightarrow> string \<Rightarrow> exn + jsval" where
  "get_prop JUndefined k = Inl TypeError"
| "get_prop JNull k = Inl TypeError"
| "get_prop (JObj fs) k = Inr (case map_of fs k of None \<Rightarrow> JUndefined | Some v \<Rightarrow> v)"
| "get_prop v k = Inr JUndefined"

text \<open>
  A template literal \<^verbatim>\<open>`${v}`\<close> converts \<^verbatim>\<open>v\<close> to a string. Every primitive has a string
  form. An object is converted by its \<^verbatim>\<open>toString\<close>, then its \<^verbatim>\<open>valueOf\<close>: a received
  property is data, never a function, so an own property \<^verbatim>\<open>toString\<close> is not callable and
  hides \<^verbatim>\<open>Object.prototype.toString\<close>, and \<^verbatim>\<open>valueOf\<close> (own: not callable; inherited: it
  returns the object) gives no primitive: the conversion throws a TypeError. Without an own
  \<^verbatim>\<open>toString\<close> the inherited one yields a string. The function gives the exception the
  conversion throws, if any; the model does not spell the string out.
\<close>

fun to_string_exn :: "jsval \<Rightarrow> exn option" where
  "to_string_exn (JObj fs) =
     (case map_of fs ''toString'' of None \<Rightarrow> None | Some f \<Rightarrow> Some TypeError)"
| "to_string_exn v = None"

section \<open>The position store\<close>

datatype driver_status = Online | Offline

text \<open>
  Modelled from the spec: the schema \<^verbatim>\<open>models/Locations.js\<close> is not part of the source. A
  document has the fields of the spec's DriverRecord; every field but the key may be absent.
  Timestamps are milliseconds as a natural number.
\<close>

record Location =
  driverId :: jsval
  status :: "driver_status option"
  lastSeen :: "nat option"
  coordinates :: "jsval option"

text \<open>
  The collection is the list of its documents, in insertion order. Two observations of it
  serve to state the properties: the first document with a key, and the number of documents
  with a key.
\<close>

definition findOne :: "jsval \<Rightarrow> Location list \<Rightarrow> Location option" where
  "findOne k rs = find (\<lambda>r. driverId r = k) rs"

definition countDocuments :: "jsval \<Rightarrow> Location list \<Rightarrow> nat" where
  "countDocuments k rs = length (filter (\<lambda>r. driverId r = k) rs)"

text \<open>
  \<^verbatim>\<open>Location.findOneAndUpdate({driverId}, {status, lastSeen}, {upsert})\<close>, the two calls of
  \<^verbatim>\<open>server.js\<close>: the first document with that key gets the two fields set; when there is
  none, \<^verbatim>\<open>upsert: true\<close> inserts a document made of the key and the two fields, and without
  it the collection stays as it is.
\<close>

fun findOneAndUpdate ::
  "jsval \<Rightarrow> driver_status \<Rightarrow> nat \<Rightarrow> bool \<Rightarrow> Location list \<Rightarrow> Location list" where
  "findOneAndUpdate k st t upsert [] =
     (if upsert
      then [\<lparr>driverId = k, status = Some st, lastSeen = Some t, coordinates = None\<rparr>]
      else [])"
| "findOneAndUpdate k st t upsert (r # rs) =
     (if driverId r = k then r\<lparr>status := Some st, lastSeen := Some t\<rparr> # rs
      else r # findOneAndUpdate k st t upsert rs)"

text \<open>
  Modelled from the spec: \<^verbatim>\<open>services/locationService.js\<close> is not part of the source. The
  spec (4.3) says that the relay upserts the record's coordinates and lastSeen without
  touching status: the first document with that key gets the two fields set, and when there
  is none a document with the key, the coordinates and lastSeen, and no status, is inserted.
\<close>

fun saveLocation :: "jsval \<Rightarrow> jsval \<Rightarrow> nat \<Rightarrow> Location list \<Rightarrow> Location list" where
  "saveLocation k c t [] =
     [\<lparr>driverId = k, status = None, lastSeen = Some t, coordinates = Some c\<rparr>]"
| "saveLocation k c t (r # rs) =
     (if driverId r = k then r\<lparr>lastSeen := Some t, coordinates := Some c\<rparr> # rs
      else r # saveLocation k c t rs)"

section \<open>The server\<close>

text \<open>
  A socket is the transport's session: its id and the \<^verbatim>\<open>driverId\<close> property the
  \<^verbatim>\<open>driver-active\<close> handler stores on it (\<^verbatim>\<open>undefined\<close> until then).
\<close>

record socket =
  socket_id :: string
  socket_driverId :: jsval

text \<open>One call of \<^verbatim>\<open>emit\<close>: the event, its payload and the sockets it is delivered to.\<close>

record emission =
  event :: string
  payload :: jsval
  recipients :: "string list"

text \<open>The store calls the handlers issue, whether they succeed or not.\<close>

datatype db_call =
    FindOneAndUpdate jsval driver_status nat bool
  | SaveLocation jsval jsval nat

datatype log_line =
    ConnectionEstablished string
  | DriverIdMissing
  | DriverNowOnline jsval
  | ErrorSettingOnline
  | ErrorSavingLocation
  | DriverWentOffline jsval
  | ErrorSettingOffline
  | UserDisconnected string

record server =
  sockets :: "socket list"
  locations :: "Location list"
  emitted :: "emission list"
  console :: "log_line list"
  db_calls :: "db_call list"

definition init_server :: server where
  "init_server = \<lparr>sockets = [], locations = [], emitted = [], console = [], db_calls = []\<rparr>"

definition connected :: "server \<Rightarrow> string list" where
  "connected s = map socket_id (sockets s)"

definition bound_driver :: "string \<Rightarrow> server \<Rightarrow> jsval option" where
  "bound_driver sid s = map_option socket_driverId (find (\<lambda>k. socket_id k = sid) (sockets s))"

definition console_log :: "log_line \<Rightarrow> server \<Rightarrow> server" where
  "console_log l s = s\<lparr>console := console s @ [l]\<rparr>"

definition db_call :: "db_call \<Rightarrow> server \<Rightarrow> server" where
  "db_call c s = s\<lparr>db_calls := db_calls s @ [c]\<rparr>"

text \<open>\<^verbatim>\<open>io.emit\<close> delivers to every connected socket.\<close>

definition io_emit :: "string \<Rightarrow> jsval \<Rightarrow> server \<Rightarrow> server" where
  "io_emit ev p s =
     s\<lparr>emitted := emitted s @ [\<lparr>event = ev, payload = p, recipients = connected s\<rparr>]\<rparr>"

text \<open>\<^verbatim>\<open>socket.broadcast.emit\<close> delivers to every connected socket but the sender.\<close>

definition broadcast_emit :: "string \<Rightarrow> string \<Rightarrow> jsval \<Rightarrow> server \<Rightarrow> server" where
  "broadcast_emit sid ev p s =
     s\<lparr>emitted := emitted s @
       [\<lparr>event = ev, payload = p, recipients = filter (\<lambda>i. i \<noteq> sid) (connected s)\<rparr>]\<rparr>"

text \<open>\<^verbatim>\<open>socket.driverId = d\<close> on the socket with that id.\<close>

definition set_driverId :: "string \<Rightarrow> jsval \<Rightarrow> socket list \<Rightarrow> socket list" where
  "set_driverId sid d ks =
     map (\<lambda>k. if socket_id k = sid then k\<lparr>socket_driverId := d\<rparr> else k) ks"

definition status_payload :: "jsval \<Rightarrow> string \<Rightarrow> jsval" where
  "status_payload d st = JObj [(''driverId'', d), (''status'', JStr st)]"

text \<open>
  An async handler either returns or its promise is rejected with the exception that
  escaped it.
\<close>

datatype outcome = Returned | Rejected exn

text \<open>
  Each handler is one atomic step: the store call it awaits completes (\<open>ok\<close>) or throws
  (\<open>\<not> ok\<close>, the collection unchanged) before any other event is handled. \<open>t\<close> is the value
  of \<^verbatim>\<open>new Date()\<close>. The two console lines that print the driverId convert it to a string
  outside the \<^verbatim>\<open>try\<close> block: when the conversion throws, the handler's promise is rejected
  there, with what the handler did before.
\<close>

definition connection :: "string \<Rightarrow> server \<Rightarrow> server" where
  "connection sid s =
     console_log (ConnectionEstablished sid)
       (s\<lparr>sockets := sockets s @ [\<lparr>socket_id = sid, socket_driverId = JUndefined\<rparr>]\<rparr>)"

definition driver_active ::
  "string \<Rightarrow> jsval \<Rightarrow> nat \<Rightarrow> bool \<Rightarrow> server \<Rightarrow> outcome \<times> server" where
  "driver_active sid data t ok s =
     (if \<not> truthy data then (Returned, console_log DriverIdMissing s)
      else (case get_prop data ''driverId'' of
        Inl e \<Rightarrow> (Rejected e, s)
      | Inr d \<Rightarrow>
          (if \<not> truthy d then (Returned, console_log DriverIdMissing s)
           else
             (let s1 = s\<lparr>sockets := set_driverId sid d (sockets s)\<rparr>
              in (case to_string_exn d of
                Some e \<Rightarrow> (Rejected e, s1)
              | None \<Rightarrow>
                  (let s2 = console_log (DriverNowOnline d) s1;
                       s3 = db_call (FindOneAndUpdate d Online t True) s2
                   in if ok
                      then (Returned,
                        io_emit ''status-update'' (status_payload d ''online'')
                          (s3\<lparr>locations := findOneAndUpdate d Online t True (locations s3)\<rparr>))
                      else (Returned, console_log ErrorSettingOnline s3)))))))"

definition update_location ::
  "string \<Rightarrow> jsval \<Rightarrow> nat \<Rightarrow> bool \<Rightarrow> server \<Rightarrow> outcome \<times> server" where
  "update_location sid data t ok s =
     (case get_prop data ''driverId'' of
        Inl e \<Rightarrow> (Rejected e, s)
      | Inr d \<Rightarrow>
          (if \<not> truthy d then (Returned, s)
           else (case get_prop data ''coordinates'' of
             Inl e \<Rightarrow> (Returned, console_log ErrorSavingLocation s)
           | Inr c \<Rightarrow>
               (let s1 = db_call (SaveLocation d c t) s
                in if ok
                   then (Returned,
                     broadcast_emit sid ''location-received'' data
                       (s1\<lparr>locations := saveLocation d c t (locations s1)\<rparr>))
                   else (Returned, console_log ErrorSavingLocation s1)))))"

text \<open>
  The \<^verbatim>\<open>disconnect\<close> handler runs on the socket that has left: \<open>s\<close> no longer holds it.
\<close>

definition on_disconnect :: "socket \<Rightarrow> nat \<Rightarrow> bool \<Rightarrow> server \<Rightarrow> outcome \<times> server" where
  "on_disconnect k t ok s =
     (let d = socket_driverId k
      in if truthy d
         then (case to_string_exn d of
             Some e \<Rightarrow> (Rejected e, s)
           | None \<Rightarrow>
               (let s1 = console_log (DriverWentOffline d) s;
                    s2 = db_call (FindOneAndUpdate d Offline t False) s1;
                    s3 = (if ok
                          then io_emit ''status-update'' (status_payload d ''offline'')
                            (s2\<lparr>locations := findOneAndUpdate d Offline t False (locations s2)\<rparr>)
                          else console_log ErrorSettingOffline s2)
                in (Returned, console_log (UserDisconnected (socket_id k)) s3)))
         else (Returned, console_log (UserDisconnected (socket_id k)) s))"

text \<open>
  The transport closes a socket: it takes the socket out of the connected ones, then fires
  its \<^verbatim>\<open>disconnect\<close> event.
\<close>

definition disconnect :: "string \<Rightarrow> nat \<Rightarrow> bool \<Rightarrow> server \<Rightarrow> outcome \<times> server" where
  "disconnect sid t ok s =
     (case find (\<lambda>k. socket_id k = sid) (sockets s) of
        None \<Rightarrow> (Returned, s)
      | Some k \<Rightarrow>
          on_disconnect k t ok (s\<lparr>sockets := filter (\<lambda>k. socket_id k \<noteq> sid) (sockets s)\<rparr>))"

subsection \<open>Runs of the server\<close>

datatype event =
    Connection string
  | DriverActive string jsval nat bool
  | UpdateLocation string jsval nat bool
  | Disconnect string nat bool

text \<open>
  The transport gives a new socket an id no connected socket has, and delivers messages of
  connected sockets only.
\<close>

fun step :: "event \<Rightarrow> server \<Rightarrow> server" where
  "step (Connection sid) s = (if sid \<in> set (connected s) then s else connection sid s)"
| "step (DriverActive sid data t ok) s =
     (if sid \<in> set (connected s) then snd (driver_active sid data t ok s) else s)"
| "step (UpdateLocation sid data t ok) s =
     (if sid \<in> set (connected s) then snd (update_location sid data t ok s) else s)"
| "step (Disconnect sid t ok) s = snd (disconnect sid t ok s)"

fun run :: "event list \<Rightarrow> server \<Rightarrow> server" where
  "run [] s = s"
| "run (e # es) s = run es (step e s)"

subsection \<open>Example states\<close>

text \<open>Two sockets have connected; nothing else has happened.\<close>

definition two_sockets :: server where
  "two_sockets = run [Connection ''a'', Connection ''b''] init_server"

text \<open>Then socket \<open>a\<close> has checked in as driver \<open>d1\<close>, and the store has saved it.\<close>

definition driver_a_online :: server where
  "driver_a_online = run [DriverActive ''a'' (JObj [(''driverId'', JStr ''d1'')]) 5 True] two_sockets"

text \<open>Or socket \<open>a\<close> has checked in as driver \<open>d1\<close> while the store was failing.\<close>

definition driver_a_unsaved :: server where
  "driver_a_unsaved =
     run [DriverActive ''a'' (JObj [(''driverId'', JStr ''d1'')]) 5 False] two_sockets"

section \<open>The store operations\<close>

lemma findOne_findOneAndUpdate_same:
  "findOne k (findOneAndUpdate k st t upsert rs) =
     (case findOne k rs of
        None \<Rightarrow> (if upsert
                  then Some \<lparr>driverId = k, status = Some st, lastSeen = Some t, coordinates = None\<rparr>
                  else None)
      | Some r \<Rightarrow> Some (r\<lparr>status := Some st, lastSeen := Some t\<rparr>))"
  by (induction rs) (simp_all add: findOne_def)

lemma findOne_findOneAndUpdate_other:
  "k' \<noteq> k \<Longrightarrow> findOne k' (findOneAndUpdate k st t upsert rs) = findOne k' rs"
  by (induction rs) (simp_all add: findOne_def)

lemma findOneAndUpdate_absent:
  "findOne k rs = None \<Longrightarrow>
   findOneAndUpdate k st t upsert rs =
     (if upsert
      then rs @ [\<lparr>driverId = k, status = Some st, lastSeen = Some t, coordinates = None\<rparr>]
      else rs)"
  by (induction rs) (simp_all add: findOne_def split: if_splits)

lemma findOneAndUpdate_present_length:
  "findOne k rs \<noteq> None \<Longrightarrow> length (findOneAndUpdate k st t upsert rs) = length rs"
  by (induction rs) (auto simp: findOne_def)

lemma countDocuments_findOneAndUpdate_same:
  "countDocuments k (findOneAndUpdate k st t upsert rs) =
     (if findOne k rs = None \<and> upsert then 1 else countDocuments k rs)"
  by (induction rs) (auto simp: findOne_def countDocuments_def)

lemma countDocuments_findOneAndUpdate_other:
  "k' \<noteq> k \<Longrightarrow>
   countDocuments k' (findOneAndUpdate k st t upsert rs) = countDocuments k' rs"
  by (induction rs) (auto simp: countDocuments_def)

lemma findOne_None_iff: "findOne k rs = None \<longleftrightarrow> countDocuments k rs = 0"
  by (induction rs) (auto simp: findOne_def countDocuments_def)

lemma others_findOneAndUpdate:
  "filter (\<lambda>r. driverId r \<noteq> k) (findOneAndUpdate k st t upsert rs) =
   filter (\<lambda>r. driverId r \<noteq> k) rs"
  by (induction rs) auto

lemma get_prop_object:
  "get_prop data k = Inr v \<Longrightarrow> v \<noteq> JUndefined \<Longrightarrow> truthy data"
  by (cases data) auto

lemma set_status_same: "status r = Some st \<Longrightarrow> r\<lparr>status := Some st, lastSeen := l\<rparr> = r\<lparr>lastSeen := l\<rparr>"
  by (cases r) simp

lemma findOne_saveLocation_same:
  "findOne k (saveLocation k c t rs) =
     (case findOne k rs of
        None \<Rightarrow> Some \<lparr>driverId = k, status = None, lastSeen = Some t, coordinates = Some c\<rparr>
      | Some r \<Rightarrow> Some (r\<lparr>lastSeen := Some t, coordinates := Some c\<rparr>))"
  by (induction rs) (simp_all add: findOne_def)

lemma findOne_saveLocation_other:
  "k' \<noteq> k \<Longrightarrow> findOne k' (saveLocation k c t rs) = findOne k' rs"
  by (induction rs) (simp_all add: findOne_def)

lemma status_saveLocation:
  "Option.bind (findOne k' (saveLocation k c t rs)) status = Option.bind (findOne k' rs) status"
  by (cases "k' = k")
    (simp_all add: findOne_saveLocation_same findOne_saveLocation_other split: option.split)

lemma countDocuments_saveLocation:
  "countDocuments k' (saveLocation k c t rs) =
     (if k' = k \<and> findOne k rs = None then 1 else countDocuments k' rs)"
  by (induction rs) (auto simp: findOne_def countDocuments_def)

lemma one_record_findOneAndUpdate:
  assumes "\<forall>k. countDocuments k rs \<le> 1"
  shows "countDocuments k (findOneAndUpdate k' st t u rs) \<le> 1"
  using assms
  by (cases "k = k'")
    (simp_all add: countDocuments_findOneAndUpdate_same countDocuments_findOneAndUpdate_other)

lemma one_record_saveLocation:
  assumes "\<forall>k. countDocuments k rs \<le> 1"
  shows "countDocuments k (saveLocation k' c t rs) \<le> 1"
  using assms by (simp add: countDocuments_saveLocation)

section \<open>The handlers, case by case\<close>

lemma connected_set_driverId [simp]:
  "map socket_id (set_driverId sid d ks) = map socket_id ks"
  by (simp add: set_driverId_def comp_def)

lemma driver_active_rejected:
  assumes "\<not> truthy data \<or> (\<exists>d. get_prop data ''driverId'' = Inr d \<and> \<not> truthy d)"
  shows "driver_active sid data t ok s = (Returned, console_log DriverIdMissing s)"
  using assms by (auto simp: driver_active_def)

lemma to_string_exn_JStr: "to_string_exn (JStr D) = None"
  by simp

lemma driver_active_accepted:
  assumes "get_prop data ''driverId'' = Inr d" and "truthy d" and "to_string_exn d = None"
  shows "driver_active sid data t ok s =
    (Returned,
     if ok
     then s\<lparr>sockets := set_driverId sid d (sockets s),
            locations := findOneAndUpdate d Online t True (locations s),
            emitted := emitted s @
              [\<lparr>event = ''status-update'', payload = status_payload d ''online'',
                recipients = connected s\<rparr>],
            console := console s @ [DriverNowOnline d],
            db_calls := db_calls s @ [FindOneAndUpdate d Online t True]\<rparr>
     else s\<lparr>sockets := set_driverId sid d (sockets s),
            console := console s @ [DriverNowOnline d, ErrorSettingOnline],
            db_calls := db_calls s @ [FindOneAndUpdate d Online t True]\<rparr>)"
proof -
  have "d \<noteq> JUndefined" using assms(2) by auto
  with assms(1) have "truthy data" by (rule get_prop_object)
  with assms show ?thesis
    by (simp add: driver_active_def Let_def io_emit_def db_call_def console_log_def
        connected_def)
qed

lemma update_location_ignored:
  assumes "get_prop data ''driverId'' = Inr d" and "\<not> truthy d"
  shows "update_location sid data t ok s = (Returned, s)"
  using assms by (simp add: update_location_def)

lemma update_location_accepted:
  assumes "get_prop data ''driverId'' = Inr d" and "truthy d"
    and "get_prop data ''coordinates'' = Inr c"
  shows "update_location sid data t ok s =
    (Returned,
     if ok
     then s\<lparr>locations := saveLocation d c t (locations s),
            emitted := emitted s @
              [\<lparr>event = ''location-received'', payload = data,
                recipients = filter (\<lambda>i. i \<noteq> sid) (connected s)\<rparr>],
            db_calls := db_calls s @ [SaveLocation d c t]\<rparr>
     else s\<lparr>console := console s @ [ErrorSavingLocation],
            db_calls := db_calls s @ [SaveLocation d c t]\<rparr>)"
  using assms
  by (simp add: update_location_def Let_def broadcast_emit_def db_call_def console_log_def
      connected_def)

lemma get_prop_twice:
  "get_prop data k = Inr v \<Longrightarrow> \<exists>c. get_prop data k' = Inr c"
  by (cases data) auto

lemma on_disconnect_bound:
  assumes "truthy (socket_driverId k)" and "to_string_exn (socket_driverId k) = None"
  shows "on_disconnect k t ok s =
    (Returned,
     if ok
     then s\<lparr>locations := findOneAndUpdate (socket_driverId k) Offline t False (locations s),
            emitted := emitted s @
              [\<lparr>event = ''status-update'',
                payload = status_payload (socket_driverId k) ''offline'',
                recipients = connected s\<rparr>],
            console := console s @
              [DriverWentOffline (socket_driverId k), UserDisconnected (socket_id k)],
            db_calls := db_calls s @ [FindOneAndUpdate (socket_driverId k) Offline t False]\<rparr>
     else s\<lparr>console := console s @
              [DriverWentOffline (socket_driverId k), ErrorSettingOffline,
               UserDisconnected (socket_id k)],
            db_calls := db_calls s @ [FindOneAndUpdate (socket_driverId k) Offline t False]\<rparr>)"
  using assms
  by (simp add: on_disconnect_def Let_def io_emit_def db_call_def console_log_def connected_def)

lemma on_disconnect_unbound:
  assumes "\<not> truthy (socket_driverId k)"
  shows "on_disconnect k t ok s =
    (Returned, s\<lparr>console := console s @ [UserDisconnected (socket_id k)]\<rparr>)"
  using assms by (simp add: on_disconnect_def Let_def console_log_def)

lemma find_socket_id:
  "find (\<lambda>k. socket_id k = sid) ks = Some k \<Longrightarrow> socket_id k = sid"
  by (induction ks) (auto split: if_splits)

lemma bound_driverE:
  assumes "bound_driver sid s = Some b"
  obtains k where "find (\<lambda>k. socket_id k = sid) (sockets s) = Some k"
    and "socket_id k = sid" and "socket_driverId k = b"
  using assms find_socket_id by (auto simp: bound_driver_def)

lemma connected_filter:
  "map socket_id (filter (\<lambda>k. socket_id k \<noteq> sid) ks) =
   filter (\<lambda>i. i \<noteq> sid) (map socket_id ks)"
  by (induction ks) auto

lemma disconnect_bound:
  assumes "bound_driver sid s = Some b" and "truthy b" and "to_string_exn b = None"
  shows "disconnect sid t ok s =
    (Returned,
     if ok
     then s\<lparr>sockets := filter (\<lambda>k. socket_id k \<noteq> sid) (sockets s),
            locations := findOneAndUpdate b Offline t False (locations s),
            emitted := emitted s @
              [\<lparr>event = ''status-update'', payload = status_payload b ''offline'',
                recipients = filter (\<lambda>i. i \<noteq> sid) (connected s)\<rparr>],
            console := console s @ [DriverWentOffline b, UserDisconnected sid],
            db_calls := db_calls s @ [FindOneAndUpdate b Offline t False]\<rparr>
     else s\<lparr>sockets := filter (\<lambda>k. socket_id k \<noteq> sid) (sockets s),
            console := console s @
              [DriverWentOffline b, ErrorSettingOffline, UserDisconnected sid],
            db_calls := db_calls s @ [FindOneAndUpdate b Offline t False]\<rparr>)"
proof -
  from assms(1) obtain k where k: "find (\<lambda>k. socket_id k = sid) (sockets s) = Some k"
    "socket_id k = sid" "socket_driverId k = b"
    by (rule bound_driverE)
  with assms(2,3) show ?thesis
    by (simp add: disconnect_def on_disconnect_bound connected_def connected_filter)
qed

lemma disconnect_unbound:
  assumes "bound_driver sid s = Some b" and "\<not> truthy b"
  shows "disconnect sid t ok s =
    (Returned,
     s\<lparr>sockets := filter (\<lambda>k. socket_id k \<noteq> sid) (sockets s),
       console := console s @ [UserDisconnected sid]\<rparr>)"
proof -
  from assms(1) obtain k where k: "find (\<lambda>k. socket_id k = sid) (sockets s) = Some k"
    "socket_id k = sid" "socket_driverId k = b"
    by (rule bound_driverE)
  with assms(2) show ?thesis
    by (simp add: disconnect_def on_disconnect_unbound)
qed

section \<open>The binding of a socket\<close>

lemma sockets_update_location:
  "sockets (snd (update_location sid data t ok s)) = sockets s"
  by (simp add: update_location_def Let_def broadcast_emit_def db_call_def console_log_def
      split: sum.split)

lemma sockets_driver_active:
  "sockets (snd (driver_active sid data t ok s)) =
     (case get_prop data ''driverId'' of
        Inr d \<Rightarrow> if truthy data \<and> truthy d then set_driverId sid d (sockets s) else sockets s
      | Inl e \<Rightarrow> sockets s)"
  by (simp add: driver_active_def Let_def io_emit_def db_call_def console_log_def
      split: sum.split option.split)

lemma connected_driver_active:
  "connected (snd (driver_active sid data t ok s)) = connected s"
  by (simp add: connected_def sockets_driver_active split: sum.split)

lemma find_None_filter:
  "find (\<lambda>k. socket_id k = sid) ks = None \<Longrightarrow> filter (\<lambda>k. socket_id k \<noteq> sid) ks = ks"
  by (induction ks) (auto split: if_splits)

lemma sockets_on_disconnect: "sockets (snd (on_disconnect k t ok s)) = sockets s"
  by (simp add: on_disconnect_def Let_def io_emit_def db_call_def console_log_def
      split: option.split)

lemma sockets_disconnect:
  "sockets (snd (disconnect sid t ok s)) = filter (\<lambda>k. socket_id k \<noteq> sid) (sockets s)"
  by (simp add: disconnect_def sockets_on_disconnect find_None_filter split: option.split)

lemma sockets_connection:
  "sockets (connection sid s) = sockets s @ [\<lparr>socket_id = sid, socket_driverId = JUndefined\<rparr>]"
  by (simp add: connection_def console_log_def)

lemma find_set_driverId:
  "map_option socket_driverId (find (\<lambda>k. socket_id k = sid) (set_driverId sid' d ks)) =
     (if sid' = sid then map_option (\<lambda>_. d) (find (\<lambda>k. socket_id k = sid) ks)
      else map_option socket_driverId (find (\<lambda>k. socket_id k = sid) ks))"
  by (induction ks) (auto simp: set_driverId_def)

lemma find_filter_other:
  "sid' \<noteq> sid \<Longrightarrow>
   find (\<lambda>k. socket_id k = sid) (filter (\<lambda>k. socket_id k \<noteq> sid') ks) =
   find (\<lambda>k. socket_id k = sid) ks"
  by (induction ks) auto

lemma find_filter_same:
  "find (\<lambda>k. socket_id k = sid) (filter (\<lambda>k. socket_id k \<noteq> sid) ks) = None"
  by (induction ks) auto

lemma find_append_found:
  "find P ks = Some k \<Longrightarrow> find P (ks @ ks') = Some k"
  by (induction ks) (auto split: if_splits)

lemma bound_driver_connected:
  "bound_driver sid s \<noteq> None \<longleftrightarrow> sid \<in> set (connected s)"
  by (auto simp: bound_driver_def connected_def find_None_iff)

lemma bound_driver_same:
  "sockets s' = sockets s \<Longrightarrow> bound_driver sid s' = bound_driver sid s"
  by (simp add: bound_driver_def)

lemma bound_driver_set:
  assumes "sockets s' = set_driverId sid' d (sockets s)"
  shows "bound_driver sid s' =
    (if sid' = sid then map_option (\<lambda>_. d) (bound_driver sid s) else bound_driver sid s)"
  unfolding bound_driver_def assms find_set_driverId
  by (simp add: option.map_comp comp_def)

lemma bound_driver_filter:
  assumes "sockets s' = filter (\<lambda>k. socket_id k \<noteq> sid') (sockets s)"
  shows "bound_driver sid s' = (if sid' = sid then None else bound_driver sid s)"
  unfolding bound_driver_def assms
  by (simp add: find_filter_other find_filter_same)

lemma bound_driver_append:
  assumes "sockets s' = sockets s @ ks" and "bound_driver sid s = Some b"
  shows "bound_driver sid s' = Some b"
proof -
  from assms(2) obtain k where "find (\<lambda>k. socket_id k = sid) (sockets s) = Some k"
    "socket_driverId k = b" by (rule bound_driverE)
  then show ?thesis
    unfolding bound_driver_def assms(1) by (simp add: find_append_found)
qed

text \<open>What one event does to the binding of a socket that is connected.\<close>

lemma bound_driver_step:
  assumes "bound_driver sid s = Some b"
  shows "bound_driver sid (step e s) =
    (case e of
       Connection sid' \<Rightarrow> Some b
     | DriverActive sid' data t ok \<Rightarrow>
         (case get_prop data ''driverId'' of
            Inr d \<Rightarrow> if sid' = sid \<and> truthy d then Some d else Some b
          | Inl x \<Rightarrow> Some b)
     | UpdateLocation sid' data t ok \<Rightarrow> Some b
     | Disconnect sid' t ok \<Rightarrow> if sid' = sid then None else Some b)"
proof (cases e)
  case (Connection sid')
  show ?thesis
  proof (cases "sid' \<in> set (connected s)")
    case True
    then show ?thesis using Connection assms by simp
  next
    case False
    then show ?thesis using Connection bound_driver_append [OF sockets_connection assms]
      by simp
  qed
next
  case (DriverActive sid' data t ok)
  show ?thesis
  proof (cases "sid' \<in> set (connected s)")
    case False
    moreover have "sid \<in> set (connected s)"
      using assms bound_driver_connected [of sid s] by simp
    ultimately have "sid' \<noteq> sid" by auto
    then show ?thesis using DriverActive False assms by (simp split: sum.split)
  next
    case True
    let ?s' = "snd (driver_active sid' data t ok s)"
    show ?thesis
    proof (cases "get_prop data ''driverId''")
      case (Inl x)
      then have "sockets ?s' = sockets s" by (simp add: sockets_driver_active)
      then have "bound_driver sid ?s' = Some b" using assms bound_driver_same by metis
      then show ?thesis using DriverActive True Inl by simp
    next
      case (Inr d)
      show ?thesis
      proof (cases "truthy d")
        case False
        then have "sockets ?s' = sockets s" using Inr by (simp add: sockets_driver_active)
        then have "bound_driver sid ?s' = Some b" using assms bound_driver_same by metis
        then show ?thesis using DriverActive True Inr False by simp
      next
        case td: True
        then have "d \<noteq> JUndefined" by auto
        with Inr have "truthy data" by (rule get_prop_object)
        then have "sockets ?s' = set_driverId sid' d (sockets s)"
          using Inr td by (simp add: sockets_driver_active)
        then have "bound_driver sid ?s' =
            (if sid' = sid then map_option (\<lambda>_. d) (bound_driver sid s) else bound_driver sid s)"
          by (rule bound_driver_set)
        then have "bound_driver sid ?s' = (if sid' = sid then Some d else Some b)"
          using assms by simp
        then show ?thesis using DriverActive True Inr td by simp
      qed
    qed
  qed
next
  case (UpdateLocation sid' data t ok)
  then show ?thesis using assms bound_driver_same [OF sockets_update_location, of sid sid' data t ok s]
    by simp
next
  case (Disconnect sid' t ok)
  then show ?thesis using assms bound_driver_filter [OF sockets_disconnect, of sid sid' t ok s]
    by simp
qed

lemma run_append: "run (es @ es') s = run es' (run es s)"
  by (induction es arbitrary: s) simp_all

lemma bound_driver_run_set:
  assumes "bound_driver sid s = Some b" and "truthy b"
    and "\<forall>t ok. Disconnect sid t ok \<notin> set es"
  shows "\<exists>b'. bound_driver sid (run es s) = Some b' \<and> truthy b'"
  using assms
proof (induction es arbitrary: s b)
  case Nil
  then show ?case by simp
next
  case (Cons e es)
  have "\<exists>b1. bound_driver sid (step e s) = Some b1 \<and> truthy b1"
    using bound_driver_step [OF Cons.prems(1), of e] Cons.prems(2,3)
    by (cases e) (auto split: sum.splits if_splits)
  then obtain b1 where "bound_driver sid (step e s) = Some b1" "truthy b1" by blast
  then show ?case using Cons.IH [of "step e s" b1] Cons.prems(3) by simp
qed

lemma bound_driver_run_same:
  assumes "bound_driver sid s = Some b"
    and "\<forall>t ok. Disconnect sid t ok \<notin> set es"
    and "\<forall>data t ok. DriverActive sid data t ok \<notin> set es"
  shows "bound_driver sid (run es s) = Some b"
  using assms
proof (induction es arbitrary: s)
  case Nil
  then show ?case by simp
next
  case (Cons e es)
  have nd: "e \<noteq> Disconnect sid t ok" for t ok
    using Cons.prems(2) by auto
  have na: "e \<noteq> DriverActive sid data t ok" for data t ok
    using Cons.prems(3) by auto
  have "bound_driver sid (step e s) = Some b"
  proof (cases e)
    case (DriverActive sid' data t ok)
    with na have "sid' \<noteq> sid" by auto
    then show ?thesis
      using bound_driver_step [OF Cons.prems(1), of e] DriverActive
      by (simp split: sum.split)
  next
    case (Disconnect sid' t ok)
    with nd have "sid' \<noteq> sid" by auto
    then show ?thesis
      using bound_driver_step [OF Cons.prems(1), of e] Disconnect by simp
  qed (use bound_driver_step [OF Cons.prems(1), of e] in simp_all)
  then show ?case using Cons.IH [of "step e s"] Cons.prems(2,3) by simp
qed

section \<open>Example states, evaluated\<close>

lemma two_sockets_eq:
  "two_sockets =
     \<lparr>sockets = [\<lparr>socket_id = ''a'', socket_driverId = JUndefined\<rparr>,
                 \<lparr>socket_id = ''b'', socket_driverId = JUndefined\<rparr>],
      locations = [], emitted = [],
      console = [ConnectionEstablished ''a'', ConnectionEstablished ''b''],
      db_calls = []\<rparr>"
  by (simp add: two_sockets_def connected_def connection_def console_log_def init_server_def)

lemma driver_a_online_eq:
  "driver_a_online =
     \<lparr>sockets = [\<lparr>socket_id = ''a'', socket_driverId = JStr ''d1''\<rparr>,
                 \<lparr>socket_id = ''b'', socket_driverId = JUndefined\<rparr>],
      locations =
        [\<lparr>driverId = JStr ''d1'', status = Some Online, lastSeen = Some 5, coordinates = None\<rparr>],
      emitted =
        [\<lparr>event = ''status-update'',
          payload = JObj [(''driverId'', JStr ''d1''), (''status'', JStr ''online'')],
          recipients = [''a'', ''b'']\<rparr>],
      console = [ConnectionEstablished ''a'', ConnectionEstablished ''b'',
                 DriverNowOnline (JStr ''d1'')],
      db_calls = [FindOneAndUpdate (JStr ''d1'') Online 5 True]\<rparr>"
  by (simp add: driver_a_online_def two_sockets_eq connected_def driver_active_accepted
      set_driverId_def status_payload_def)

lemma driver_a_unsaved_eq:
  "driver_a_unsaved =
     \<lparr>sockets = [\<lparr>socket_id = ''a'', socket_driverId = JStr ''d1''\<rparr>,
                 \<lparr>socket_id = ''b'', socket_driverId = JUndefined\<rparr>],
      locations = [], emitted = [],
      console = [ConnectionEstablished ''a'', ConnectionEstablished ''b'',
                 DriverNowOnline (JStr ''d1''), ErrorSettingOnline],
      db_calls = [FindOneAndUpdate (JStr ''d1'') Online 5 True]\<rparr>"
  by (simp add: driver_a_unsaved_def two_sockets_eq connected_def driver_active_accepted
      set_driverId_def)

section \<open>One record per driver\<close>

text \<open>
  Every write of the handlers keeps at most one record per driver, so the store of a server
  that started empty never holds two records of one driver.
\<close>

lemma one_record_per_driver_step:
  assumes "\<forall>k. countDocuments k (locations s) \<le> 1"
  shows "countDocuments k (locations (step e s)) \<le> 1"
proof -
  note fou = one_record_findOneAndUpdate [OF assms]
  note sav = one_record_saveLocation [OF assms]
  have same: "countDocuments k (locations s) \<le> 1" using assms by blast
  show ?thesis
  proof (cases e)
    case (Connection sid)
    then show ?thesis using same by (simp add: connection_def console_log_def)
  next
    case (DriverActive sid data t ok)
    then show ?thesis using same fou [of k _ Online t True]
      by (simp add: driver_active_def Let_def io_emit_def db_call_def console_log_def
          split: sum.split option.split)
  next
    case (UpdateLocation sid data t ok)
    then show ?thesis using same sav [of k _ _ t]
      by (simp add: update_location_def Let_def broadcast_emit_def db_call_def console_log_def
          split: sum.split)
  next
    case (Disconnect sid t ok)
    then show ?thesis using same fou [of k _ Offline t False]
      by (simp add: disconnect_def on_disconnect_def Let_def io_emit_def db_call_def
          console_log_def split: option.split)
  qed
qed

lemma one_record_per_driver_run:
  assumes "\<forall>k. countDocuments k (locations s) \<le> 1"
  shows "countDocuments k (locations (run es s)) \<le> 1"
  using assms
proof (induction es arbitrary: s)
  case Nil
  then show ?case by simp
next
  case (Cons e es)
  have "\<forall>k. countDocuments k (locations (step e s)) \<le> 1"
    by (intro allI one_record_per_driver_step Cons.prems)
  then show ?case using Cons.IH by simp
qed

lemma one_record_per_driver_reachable:
  "countDocuments k (locations (run es init_server)) \<le> 1"
  by (rule one_record_per_driver_run) (simp add: init_server_def countDocuments_def)

section \<open>Repeated check-ins\<close>

text \<open>One repetition of the check-in, on a store where the driver is online.\<close>

lemma check_in_again:
  fixes s :: server and t :: nat and ok :: bool
  assumes "get_prop data ''driverId'' = Inr (JStr D)" and "D \<noteq> []"
    and "sid \<in> set (connected s)"
    and "countDocuments (JStr D) (locations s) = 1"
    and "findOne (JStr D) (locations s) = Some r" and "status r = Some Online"
  defines "s' \<equiv> step (DriverActive sid data t ok) s"
  shows "countDocuments (JStr D) (locations s') = 1"
    and "findOne (JStr D) (locations s') =
      Some (r\<lparr>lastSeen := if ok then Some t else lastSeen r\<rparr>)"
    and "filter (\<lambda>r. driverId r \<noteq> JStr D) (locations s') =
      filter (\<lambda>r. driverId r \<noteq> JStr D) (locations s)"
    and "length (locations s') = length (locations s)"
    and "sid \<in> set (connected s')"
proof -
  have td: "truthy (JStr D)" using assms(2) by simp
  have s': "s' = snd (driver_active sid data t ok s)"
    using assms(3) by (simp add: s'_def)
  show "countDocuments (JStr D) (locations s') = 1"
    using assms(4,5)
    by (simp add: s' driver_active_accepted [OF assms(1) td to_string_exn_JStr]
        countDocuments_findOneAndUpdate_same)
  show "findOne (JStr D) (locations s') =
      Some (r\<lparr>lastSeen := if ok then Some t else lastSeen r\<rparr>)"
    using assms(5,6)
    by (simp add: s' driver_active_accepted [OF assms(1) td to_string_exn_JStr]
        findOne_findOneAndUpdate_same set_status_same)
  show "filter (\<lambda>r. driverId r \<noteq> JStr D) (locations s') =
      filter (\<lambda>r. driverId r \<noteq> JStr D) (locations s)"
    by (simp add: s' driver_active_accepted [OF assms(1) td to_string_exn_JStr]
        others_findOneAndUpdate)
  show "length (locations s') = length (locations s)"
    using assms(5)
    by (simp add: s' driver_active_accepted [OF assms(1) td to_string_exn_JStr]
        findOneAndUpdate_present_length)
  show "sid \<in> set (connected s')"
    using assms(3) by (simp add: s' connected_driver_active)
qed

lemma check_in_repeatedly:
  fixes s :: server and tos :: "(nat \<times> bool) list"
  assumes "get_prop data ''driverId'' = Inr (JStr D)" and "D \<noteq> []"
    and "sid \<in> set (connected s)"
    and "countDocuments (JStr D) (locations s) = 1"
    and "findOne (JStr D) (locations s) = Some r" and "status r = Some Online"
  defines "s' \<equiv> run (map (\<lambda>(t, ok). DriverActive sid data t ok) tos) s"
  shows "countDocuments (JStr D) (locations s') = 1 \<and>
    findOne (JStr D) (locations s') =
      Some (r\<lparr>lastSeen := if filter snd tos = [] then lastSeen r
                          else Some (fst (last (filter snd tos)))\<rparr>) \<and>
    filter (\<lambda>r. driverId r \<noteq> JStr D) (locations s') =
      filter (\<lambda>r. driverId r \<noteq> JStr D) (locations s) \<and>
    length (locations s') = length (locations s)"
  unfolding s'_def using assms(3-6)
proof (induction tos arbitrary: s r)
  case Nil
  then show ?case by simp
next
  case (Cons x tos)
  obtain t ok where x: "x = (t, ok)" by (cases x)
  let ?s1 = "step (DriverActive sid data t ok) s"
  let ?r1 = "r\<lparr>lastSeen := if ok then Some t else lastSeen r\<rparr>"
  let ?s2 = "run (map (\<lambda>(t, ok). DriverActive sid data t ok) tos) ?s1"
  note one = check_in_again [OF assms(1,2) Cons.prems, of t ok]
  have st: "status ?r1 = Some Online" using Cons.prems(4) by simp
  note ih = Cons.IH [OF one(5) one(1) one(2) st]
  have eq: "run (map (\<lambda>(t, ok). DriverActive sid data t ok) (x # tos)) s = ?s2"
    using x by simp
  have A: "countDocuments (JStr D) (locations ?s2) = 1" using ih by blast
  have "findOne (JStr D) (locations ?s2) =
      Some (?r1\<lparr>lastSeen := if filter snd tos = [] then lastSeen ?r1
                          else Some (fst (last (filter snd tos)))\<rparr>)"
    using ih by blast
  also have "?r1\<lparr>lastSeen := if filter snd tos = [] then lastSeen ?r1
                          else Some (fst (last (filter snd tos)))\<rparr> =
      r\<lparr>lastSeen := if filter snd (x # tos) = [] then lastSeen r
                          else Some (fst (last (filter snd (x # tos))))\<rparr>"
    using x by simp
  finally have B: "findOne (JStr D) (locations ?s2) =
      Some (r\<lparr>lastSeen := if filter snd (x # tos) = [] then lastSeen r
                          else Some (fst (last (filter snd (x # tos))))\<rparr>)" .
  have C: "filter (\<lambda>r. driverId r \<noteq> JStr D) (locations ?s2) =
      filter (\<lambda>r. driverId r \<noteq> JStr D) (locations s)"
    using ih one(3) by simp
  have D: "length (locations ?s2) = length (locations s)"
    using ih one(4) by simp
  show ?case unfolding eq using A B C D by blast
qed

section \<open>The properties of the specification\<close>

subsection \<open>C1: a check-in marks the driver online and tells every socket\<close>

text \<open>
  C1. A \<^verbatim>\<open>driver-active\<close> message whose \<^verbatim>\<open>driverId\<close> is the non-empty string \<open>D\<close>, sent by a
  connected socket, with a store write that succeeds: the handler returns; the store then
  holds a record for \<open>D\<close> with status online and lastSeen the time of the call, appended by
  the upsert when there was none and updated in place otherwise; one call of the store was
  made; exactly one event was emitted, \<^verbatim>\<open>status-update\<close> with the payload
  \<open>{driverId: D, status: online}\<close>, to all connected sockets, the sender among them.
\<close>

theorem driver_active_check_in:
  assumes "get_prop data ''driverId'' = Inr (JStr D)" and "D \<noteq> []"
    and "sid \<in> set (connected s)"
  shows "\<exists>s'. driver_active sid data t True s = (Returned, s') \<and>
    (\<exists>r. findOne (JStr D) (locations s') = Some r \<and>
         status r = Some Online \<and> lastSeen r = Some t) \<and>
    (findOne (JStr D) (locations s) = None \<longrightarrow>
       locations s' = locations s @
         [\<lparr>driverId = JStr D, status = Some Online, lastSeen = Some t, coordinates = None\<rparr>]) \<and>
    (\<forall>r. findOne (JStr D) (locations s) = Some r \<longrightarrow>
       findOne (JStr D) (locations s') = Some (r\<lparr>status := Some Online, lastSeen := Some t\<rparr>) \<and>
       length (locations s') = length (locations s)) \<and>
    db_calls s' = db_calls s @ [FindOneAndUpdate (JStr D) Online t True] \<and>
    emitted s' = emitted s @
      [\<lparr>event = ''status-update'',
        payload = JObj [(''driverId'', JStr D), (''status'', JStr ''online'')],
        recipients = connected s'\<rparr>] \<and>
    connected s' = connected s \<and> sid \<in> set (connected s')"
proof -
  have td: "truthy data"
    using assms(1) by (rule get_prop_object) simp
  define rs where "rs = findOneAndUpdate (JStr D) Online t True (locations s)"
  define s' where "s' = io_emit ''status-update'' (status_payload (JStr D) ''online'')
      ((db_call (FindOneAndUpdate (JStr D) Online t True)
         (console_log (DriverNowOnline (JStr D))
           (s\<lparr>sockets := set_driverId sid (JStr D) (sockets s)\<rparr>)))\<lparr>locations := rs\<rparr>)"
  have run: "driver_active sid data t True s = (Returned, s')"
    using assms(1,2) td
    by (simp add: driver_active_def s'_def rs_def Let_def db_call_def console_log_def)
  have conn: "connected s' = connected s"
    by (simp add: s'_def io_emit_def db_call_def console_log_def connected_def
        set_driverId_def comp_def)
  have loc: "locations s' = rs"
    by (simp add: s'_def io_emit_def db_call_def console_log_def)
  have em: "emitted s' = emitted s @
      [\<lparr>event = ''status-update'',
        payload = JObj [(''driverId'', JStr D), (''status'', JStr ''online'')],
        recipients = connected s'\<rparr>]"
    unfolding conn
    by (simp add: s'_def io_emit_def db_call_def console_log_def connected_def
        set_driverId_def comp_def status_payload_def)
  have calls: "db_calls s' = db_calls s @ [FindOneAndUpdate (JStr D) Online t True]"
    by (simp add: s'_def io_emit_def db_call_def console_log_def)
  have rec: "\<exists>r. findOne (JStr D) rs = Some r \<and> status r = Some Online \<and> lastSeen r = Some t"
    by (simp add: rs_def findOne_findOneAndUpdate_same split: option.split)
  have absent: "findOne (JStr D) (locations s) = None \<longrightarrow>
       rs = locations s @
         [\<lparr>driverId = JStr D, status = Some Online, lastSeen = Some t, coordinates = None\<rparr>]"
    by (simp add: rs_def findOneAndUpdate_absent)
  have present: "\<forall>r. findOne (JStr D) (locations s) = Some r \<longrightarrow>
       findOne (JStr D) rs = Some (r\<lparr>status := Some Online, lastSeen := Some t\<rparr>) \<and>
       length rs = length (locations s)"
    by (simp add: rs_def findOne_findOneAndUpdate_same findOneAndUpdate_present_length)
  show ?thesis
    using run conn loc em calls rec absent present assms(3) by simp
qed

theorem driver_active_check_in_witness:
  "get_prop (JObj [(''driverId'', JStr ''d1'')]) ''driverId'' = Inr (JStr ''d1'') \<and>
   ''d1'' \<noteq> [] \<and>
   ''a'' \<in> set (connected two_sockets) \<and>
   (\<exists>s'. driver_active ''a'' (JObj [(''driverId'', JStr ''d1'')]) 5 True two_sockets =
           (Returned, s') \<and>
      locations s' =
        [\<lparr>driverId = JStr ''d1'', status = Some Online, lastSeen = Some 5, coordinates = None\<rparr>] \<and>
      emitted s' =
        [\<lparr>event = ''status-update'',
          payload = JObj [(''driverId'', JStr ''d1''), (''status'', JStr ''online'')],
          recipients = [''a'', ''b'']\<rparr>])"
proof -
  let ?data = "JObj [(''driverId'', JStr ''d1'')]"
  have h1: "get_prop ?data ''driverId'' = Inr (JStr ''d1'')" by simp
  have h2: "''d1'' \<noteq> []" by simp
  have c: "connected two_sockets = [''a'', ''b'']"
    by (simp add: two_sockets_eq connected_def)
  have h3: "''a'' \<in> set (connected two_sockets)" by (simp add: c)
  have l: "locations two_sockets = []" "emitted two_sockets = []"
    by (simp_all add: two_sockets_eq)
  have f: "findOne (JStr ''d1'') (locations two_sockets) = None"
    by (simp add: l findOne_def)
  from driver_active_check_in [OF h1 h2 h3, of 5]
  show ?thesis using h1 h3 c l f by auto
qed

subsection \<open>C2: a disconnect marks the bound driver offline\<close>

text \<open>
  C2. A socket bound to the driver \<open>D\<close> disconnects: the handler issues one store call, an
  update of \<open>D\<close> to status offline and lastSeen the time of the call, without upsert. When
  the call succeeds (the spec's "on success"), a record of \<open>D\<close> has these two fields set
  and no other record changes, a store that has no record of \<open>D\<close> stays as it is, and
  exactly one event is emitted, \<^verbatim>\<open>status-update\<close> with the payload
  \<open>{driverId: D, status: offline}\<close>, to all sockets still connected. A socket whose binding is
  unset disconnects with no store call, no change of the store and no event.
\<close>

theorem disconnect_marks_offline:
  "(bound_driver sid s = Some (JStr D) \<and> D \<noteq> [] \<longrightarrow>
      (\<exists>s'. disconnect sid t ok s = (Returned, s') \<and>
         db_calls s' = db_calls s @ [FindOneAndUpdate (JStr D) Offline t False] \<and>
         connected s' = filter (\<lambda>i. i \<noteq> sid) (connected s) \<and>
         (ok \<longrightarrow>
            (findOne (JStr D) (locations s) = None \<longrightarrow> locations s' = locations s) \<and>
            (\<forall>r. findOne (JStr D) (locations s) = Some r \<longrightarrow>
               findOne (JStr D) (locations s') =
                 Some (r\<lparr>status := Some Offline, lastSeen := Some t\<rparr>) \<and>
               length (locations s') = length (locations s)) \<and>
            (\<forall>k. k \<noteq> JStr D \<longrightarrow> findOne k (locations s') = findOne k (locations s)) \<and>
            emitted s' = emitted s @
              [\<lparr>event = ''status-update'',
                payload = JObj [(''driverId'', JStr D), (''status'', JStr ''offline'')],
                recipients = connected s'\<rparr>]))) \<and>
   (bound_driver sid s = Some b \<and> \<not> truthy b \<longrightarrow>
      (\<exists>s'. disconnect sid t ok s = (Returned, s') \<and>
         db_calls s' = db_calls s \<and> locations s' = locations s \<and> emitted s' = emitted s))"
proof (intro conjI impI)
  assume a: "bound_driver sid s = Some (JStr D) \<and> D \<noteq> []"
  then have b: "bound_driver sid s = Some (JStr D)" and t: "truthy (JStr D)" by simp_all
  show "\<exists>s'. disconnect sid t ok s = (Returned, s') \<and>
         db_calls s' = db_calls s @ [FindOneAndUpdate (JStr D) Offline t False] \<and>
         connected s' = filter (\<lambda>i. i \<noteq> sid) (connected s) \<and>
         (ok \<longrightarrow>
            (findOne (JStr D) (locations s) = None \<longrightarrow> locations s' = locations s) \<and>
            (\<forall>r. findOne (JStr D) (locations s) = Some r \<longrightarrow>
               findOne (JStr D) (locations s') =
                 Some (r\<lparr>status := Some Offline, lastSeen := Some t\<rparr>) \<and>
               length (locations s') = length (locations s)) \<and>
            (\<forall>k. k \<noteq> JStr D \<longrightarrow> findOne k (locations s') = findOne k (locations s)) \<and>
            emitted s' = emitted s @
              [\<lparr>event = ''status-update'',
                payload = JObj [(''driverId'', JStr D), (''status'', JStr ''offline'')],
                recipients = connected s'\<rparr>])"
    unfolding disconnect_bound [OF b t to_string_exn_JStr]
    by (simp add: connected_def connected_filter status_payload_def findOneAndUpdate_absent
        findOne_findOneAndUpdate_same findOne_findOneAndUpdate_other
        findOneAndUpdate_present_length)
next
  assume "bound_driver sid s = Some b \<and> \<not> truthy b"
  then show "\<exists>s'. disconnect sid t ok s = (Returned, s') \<and>
         db_calls s' = db_calls s \<and> locations s' = locations s \<and> emitted s' = emitted s"
    by (simp add: disconnect_unbound)
qed

theorem disconnect_marks_offline_witness:
  "bound_driver ''a'' driver_a_online = Some (JStr ''d1'') \<and>
   (\<exists>s'. disconnect ''a'' 9 True driver_a_online = (Returned, s') \<and>
      locations s' =
        [\<lparr>driverId = JStr ''d1'', status = Some Offline, lastSeen = Some 9,
          coordinates = None\<rparr>] \<and>
      emitted s' = emitted driver_a_online @
        [\<lparr>event = ''status-update'',
          payload = JObj [(''driverId'', JStr ''d1''), (''status'', JStr ''offline'')],
          recipients = [''b'']\<rparr>]) \<and>
   bound_driver ''a'' driver_a_unsaved = Some (JStr ''d1'') \<and>
   findOne (JStr ''d1'') (locations driver_a_unsaved) = None \<and>
   (\<exists>s'. disconnect ''a'' 9 True driver_a_unsaved = (Returned, s') \<and> locations s' = []) \<and>
   bound_driver ''b'' driver_a_online = Some JUndefined \<and>
   (\<exists>s'. disconnect ''b'' 9 True driver_a_online = (Returned, s') \<and>
      db_calls s' = db_calls driver_a_online \<and> locations s' = locations driver_a_online \<and>
      emitted s' = emitted driver_a_online)"
proof -
  have b1: "bound_driver ''a'' driver_a_online = Some (JStr ''d1'')"
    and b2: "bound_driver ''b'' driver_a_online = Some JUndefined"
    and f1: "findOne (JStr ''d1'') (locations driver_a_online) =
      Some \<lparr>driverId = JStr ''d1'', status = Some Online, lastSeen = Some 5,
            coordinates = None\<rparr>"
    and l1: "locations driver_a_online =
      [\<lparr>driverId = JStr ''d1'', status = Some Online, lastSeen = Some 5,
            coordinates = None\<rparr>]"
    and c1: "connected driver_a_online = [''a'', ''b'']"
    by (simp_all add: driver_a_online_eq bound_driver_def findOne_def connected_def)
  have b3: "bound_driver ''a'' driver_a_unsaved = Some (JStr ''d1'')"
    and f3: "findOne (JStr ''d1'') (locations driver_a_unsaved) = None"
    and l3: "locations driver_a_unsaved = []"
    by (simp_all add: driver_a_unsaved_eq bound_driver_def findOne_def)
  have n: "''d1'' \<noteq> []" "\<not> truthy JUndefined" by simp_all
  obtain s1 where s1: "disconnect ''a'' 9 True driver_a_online = (Returned, s1)"
    "connected s1 = [''b'']"
    "findOne (JStr ''d1'') (locations s1) =
       Some \<lparr>driverId = JStr ''d1'', status = Some Offline, lastSeen = Some 9,
            coordinates = None\<rparr>"
    "length (locations s1) = 1"
    "emitted s1 = emitted driver_a_online @
        [\<lparr>event = ''status-update'',
          payload = JObj [(''driverId'', JStr ''d1''), (''status'', JStr ''offline'')],
          recipients = [''b'']\<rparr>]"
    using disconnect_marks_offline [where sid = "''a''" and s = driver_a_online and D = "''d1''"
        and t = 9 and ok = True and b = JUndefined] b1 n f1 c1 l1
    by auto
  from s1(3,4) have "locations s1 =
        [\<lparr>driverId = JStr ''d1'', status = Some Offline, lastSeen = Some 9,
          coordinates = None\<rparr>]"
    by (cases "locations s1") (auto simp: findOne_def split: if_splits)
  moreover
  obtain s3 where "disconnect ''a'' 9 True driver_a_unsaved = (Returned, s3)" "locations s3 = []"
    using disconnect_marks_offline [where sid = "''a''" and s = driver_a_unsaved and D = "''d1''"
        and t = 9 and ok = True and b = JUndefined] b3 n f3 l3
    by auto
  moreover
  obtain s2 where "disconnect ''b'' 9 True driver_a_online = (Returned, s2)"
    "db_calls s2 = db_calls driver_a_online" "locations s2 = locations driver_a_online"
    "emitted s2 = emitted driver_a_online"
    using disconnect_marks_offline [where sid = "''b''" and s = driver_a_online and D = "''d1''"
        and t = 9 and ok = True and b = JUndefined] b2 n
    by auto
  ultimately show ?thesis using s1 b1 b2 b3 f3 by simp
qed

subsection \<open>C3: the binding of a socket follows its latest check-in\<close>

text \<open>
  The spec's invariant is that a binding, once set, never changes. The handler assigns
  \<^verbatim>\<open>socket.driverId\<close> on every valid check-in: socket \<open>a\<close> checks in as \<open>d1\<close>, then as
  \<open>d2\<close>, and is bound to \<open>d2\<close>.
\<close>

theorem binding_changes_counterexample:
  "bound_driver ''a'' (run [DriverActive ''a'' (JObj [(''driverId'', JStr ''d1'')]) 5 True]
      two_sockets) = Some (JStr ''d1'') \<and>
   bound_driver ''a'' (run [DriverActive ''a'' (JObj [(''driverId'', JStr ''d1'')]) 5 True,
      DriverActive ''a'' (JObj [(''driverId'', JStr ''d2'')]) 6 True] two_sockets) =
     Some (JStr ''d2'') \<and>
   JStr ''d2'' \<noteq> JStr ''d1''"
  by (simp add: two_sockets_eq connected_def driver_active_accepted set_driverId_def
      bound_driver_def)

text \<open>
  C3, as the code has it. Once a socket is bound, then as long as it does not disconnect:
  it stays bound (the binding is never cleared); no event other than a \<^verbatim>\<open>driver-active\<close>
  message of that same socket changes the binding; and a \<^verbatim>\<open>driver-active\<close> message of
  that socket with a non-empty \<^verbatim>\<open>driverId\<close> sets the binding to that \<^verbatim>\<open>driverId\<close>, whatever
  it was before and whether or not the store write succeeds.
\<close>

theorem binding_follows_last_check_in:
  assumes "bound_driver sid s = Some b" and "truthy b"
    and "\<forall>t ok. Disconnect sid t ok \<notin> set es"
  shows "(\<exists>b'. bound_driver sid (run es s) = Some b' \<and> truthy b') \<and>
    ((\<forall>data t ok. DriverActive sid data t ok \<notin> set es) \<longrightarrow>
       bound_driver sid (run es s) = Some b) \<and>
    (\<forall>data d t ok. get_prop data ''driverId'' = Inr d \<and> truthy d \<longrightarrow>
       bound_driver sid (run (es @ [DriverActive sid data t ok]) s) = Some d)"
proof -
  from assms have 1: "\<exists>b'. bound_driver sid (run es s) = Some b' \<and> truthy b'"
    by (rule bound_driver_run_set)
  then obtain b' where b': "bound_driver sid (run es s) = Some b'" by blast
  have 3: "bound_driver sid (run (es @ [DriverActive sid data t ok]) s) = Some d"
    if "get_prop data ''driverId'' = Inr d" "truthy d" for data d t ok
    using bound_driver_step [OF b', of "DriverActive sid data t ok"] that
    by (simp add: run_append)
  from 1 3 assms(1,3) show ?thesis
    by (auto simp: bound_driver_run_same)
qed

theorem binding_follows_last_check_in_witness:
  "bound_driver ''a'' driver_a_online = Some (JStr ''d1'') \<and> truthy (JStr ''d1'') \<and>
   bound_driver ''a''
     (run [UpdateLocation ''a'' (JObj [(''driverId'', JStr ''d1'')]) 6 True,
           Disconnect ''b'' 7 True] driver_a_online) = Some (JStr ''d1'') \<and>
   bound_driver ''a''
     (run ([UpdateLocation ''a'' (JObj [(''driverId'', JStr ''d1'')]) 6 True,
            Disconnect ''b'' 7 True] @
           [DriverActive ''a'' (JObj [(''driverId'', JStr ''d2'')]) 8 False]) driver_a_online) =
     Some (JStr ''d2'')"
proof -
  let ?es = "[UpdateLocation ''a'' (JObj [(''driverId'', JStr ''d1'')]) 6 True,
              Disconnect ''b'' 7 True]"
  have h1: "bound_driver ''a'' driver_a_online = Some (JStr ''d1'')"
    by (simp add: driver_a_online_eq bound_driver_def)
  have h2: "truthy (JStr ''d1'')" by simp
  have h3: "\<forall>t ok. Disconnect ''a'' t ok \<notin> set ?es" by simp
  have h4: "\<forall>data t ok. DriverActive ''a'' data t ok \<notin> set ?es" by simp
  have h5: "get_prop (JObj [(''driverId'', JStr ''d2'')]) ''driverId'' = Inr (JStr ''d2'') \<and>
    truthy (JStr ''d2'')" by simp
  from binding_follows_last_check_in [OF h1 h2 h3] h4 h5
  show ?thesis using h1 h2 by blast
qed

subsection \<open>C4: a position update is forwarded to the other sockets\<close>

text \<open>
  The spec gives the payload of \<^verbatim>\<open>location-received\<close> as
  \<open>{driverId, coordinates}\<close>. The handler emits the object it received: a message that also
  carries \<open>speed\<close> is forwarded with \<open>speed\<close>.
\<close>

theorem location_payload_counterexample:
  "\<exists>s'. update_location ''a''
      (JObj [(''driverId'', JStr ''d1''),
             (''coordinates'', JObj [(''latitude'', JNum 1), (''longitude'', JNum 2)]),
             (''speed'', JNum 80)]) 7 True two_sockets = (Returned, s') \<and>
     map event (emitted s') = [''location-received''] \<and>
     map payload (emitted s') =
       [JObj [(''driverId'', JStr ''d1''),
              (''coordinates'', JObj [(''latitude'', JNum 1), (''longitude'', JNum 2)]),
              (''speed'', JNum 80)]] \<and>
     map payload (emitted s') \<noteq>
       [JObj [(''driverId'', JStr ''d1''),
              (''coordinates'', JObj [(''latitude'', JNum 1), (''longitude'', JNum 2)])]]"
  by (simp add: update_location_def two_sockets_eq Let_def db_call_def broadcast_emit_def
      connected_def)

text \<open>
  C4, as the code has it. An \<^verbatim>\<open>update-location\<close> message with a non-empty \<^verbatim>\<open>driverId\<close>
  and a store write that succeeds: exactly one event is emitted, \<^verbatim>\<open>location-received\<close>,
  whose payload is the received payload unchanged (so exactly \<open>{driverId, coordinates}\<close>
  when the message holds exactly these two fields); it is delivered to every connected
  socket but the sender, and not to the sender.
\<close>

theorem update_location_forwards_payload:
  assumes "get_prop data ''driverId'' = Inr d" and "truthy d"
  shows "\<exists>s' rs. update_location sid data t True s = (Returned, s') \<and>
    emitted s' = emitted s @
      [\<lparr>event = ''location-received'', payload = data, recipients = rs\<rparr>] \<and>
    connected s' = connected s \<and>
    set rs = set (connected s') - {sid}"
proof -
  from assms(1) obtain c where "get_prop data ''coordinates'' = Inr c"
    using get_prop_twice by blast
  with assms show ?thesis
    by (auto simp: update_location_accepted connected_def)
qed

theorem update_location_forwards_payload_witness:
  "get_prop (JObj [(''driverId'', JStr ''d1''), (''coordinates'', JObj [(''latitude'', JNum 1),
      (''longitude'', JNum 2)])]) ''driverId'' = Inr (JStr ''d1'') \<and>
   truthy (JStr ''d1'') \<and>
   (\<exists>s'. update_location ''a'' (JObj [(''driverId'', JStr ''d1''),
        (''coordinates'', JObj [(''latitude'', JNum 1), (''longitude'', JNum 2)])]) 7 True
        two_sockets = (Returned, s') \<and>
      (\<exists>rs. emitted s' =
        [\<lparr>event = ''location-received'',
          payload = JObj [(''driverId'', JStr ''d1''),
            (''coordinates'', JObj [(''latitude'', JNum 1), (''longitude'', JNum 2)])],
          recipients = rs\<rparr>] \<and> set rs = {''b''}))"
proof -
  let ?data = "JObj [(''driverId'', JStr ''d1''),
      (''coordinates'', JObj [(''latitude'', JNum 1), (''longitude'', JNum 2)])]"
  have h1: "get_prop ?data ''driverId'' = Inr (JStr ''d1'')" by simp
  have h2: "truthy (JStr ''d1'')" by simp
  have e: "emitted two_sockets = []" "connected two_sockets = [''a'', ''b'']"
    by (simp_all add: two_sockets_eq connected_def)
  have "set (connected two_sockets) - {''a''} = {''b''}"
    unfolding e by auto
  with update_location_forwards_payload [OF h1 h2, of "''a''" 7 two_sockets]
  show ?thesis using h1 h2 e by auto
qed

subsection \<open>C5: a failing store write is logged and nothing is announced\<close>



subsection \<open>C6: a position update without payload\<close>

text \<open>
  C6. The \<^verbatim>\<open>update-location\<close> handler reads \<^verbatim>\<open>data.driverId\<close> with no test of
  \<^verbatim>\<open>data\<close>: on a payload that is missing (\<^verbatim>\<open>undefined\<close>) or \<^verbatim>\<open>null\<close> the read throws
  a TypeError outside the \<^verbatim>\<open>try\<close> block and the handler's promise is rejected, the state
  unchanged. The \<^verbatim>\<open>driver-active\<close> handler tests \<^verbatim>\<open>!data\<close> first and returns on the same
  payloads.
\<close>

theorem update_location_missing_payload:
  "update_location sid JUndefined t ok s = (Rejected TypeError, s) \<and>
   update_location sid JNull t ok s = (Rejected TypeError, s) \<and>
   fst (driver_active sid JUndefined t ok s) = Returned \<and>
   fst (driver_active sid JNull t ok s) = Returned"
  by (simp add: update_location_def driver_active_def)

theorem update_location_missing_payload_witness:
  "update_location ''a'' JUndefined 6 True two_sockets = (Rejected TypeError, two_sockets) \<and>
   update_location ''a'' JNull 6 True two_sockets = (Rejected TypeError, two_sockets)"
  using update_location_missing_payload [of "''a''" 6 True two_sockets] by simp

subsection \<open>C7: a check-in without driverId is dropped\<close>

text \<open>
  C7. A \<^verbatim>\<open>driver-active\<close> message whose payload is falsy (missing, \<^verbatim>\<open>null\<close>) or whose
  \<^verbatim>\<open>driverId\<close> is falsy (missing, empty): the handler returns with no store call, the
  store, the emitted events and the sockets unchanged, so the binding of the sender is what
  it was; it writes one line to the console.
\<close>

theorem driver_active_missing_driverId:
  assumes "\<not> truthy data \<or> (\<exists>d. get_prop data ''driverId'' = Inr d \<and> \<not> truthy d)"
  shows "\<exists>s'. driver_active sid data t ok s = (Returned, s') \<and>
    db_calls s' = db_calls s \<and> locations s' = locations s \<and>
    emitted s' = emitted s \<and> sockets s' = sockets s \<and>
    bound_driver sid s' = bound_driver sid s \<and>
    console s' = console s @ [DriverIdMissing]"
  using driver_active_rejected [OF assms, of sid t ok s]
  by (simp add: console_log_def bound_driver_def)

theorem driver_active_missing_driverId_witness:
  "\<not> truthy JUndefined \<and>
   (\<exists>s'. driver_active ''a'' JUndefined 6 True two_sockets = (Returned, s') \<and>
      db_calls s' = [] \<and> locations s' = [] \<and> emitted s' = [] \<and>
      bound_driver ''a'' s' = Some JUndefined) \<and>
   get_prop (JObj [(''driverId'', JStr '''')]) ''driverId'' = Inr (JStr '''') \<and>
   \<not> truthy (JStr '''') \<and>
   (\<exists>s'. driver_active ''a'' (JObj [(''driverId'', JStr '''')]) 6 True driver_a_online =
          (Returned, s') \<and>
      db_calls s' = db_calls driver_a_online \<and> locations s' = locations driver_a_online \<and>
      emitted s' = emitted driver_a_online \<and>
      bound_driver ''a'' s' = Some (JStr ''d1''))"
proof -
  have h1: "\<not> truthy JUndefined \<or>
      (\<exists>d. get_prop JUndefined ''driverId'' = Inr d \<and> \<not> truthy d)" by simp
  have h2: "\<not> truthy (JObj [(''driverId'', JStr '''')]) \<or>
      (\<exists>d. get_prop (JObj [(''driverId'', JStr '''')]) ''driverId'' = Inr d \<and> \<not> truthy d)"
    by simp
  have e1: "db_calls two_sockets = []" "locations two_sockets = []" "emitted two_sockets = []"
    "bound_driver ''a'' two_sockets = Some JUndefined"
    by (simp_all add: two_sockets_eq bound_driver_def)
  have e2: "bound_driver ''a'' driver_a_online = Some (JStr ''d1'')"
    by (simp add: driver_a_online_eq bound_driver_def)
  from driver_active_missing_driverId [OF h1, of "''a''" 6 True two_sockets]
    driver_active_missing_driverId [OF h2, of "''a''" 6 True driver_a_online]
  show ?thesis using e1 e2 by auto
qed

subsection \<open>C8: a position update leaves the status alone\<close>

text \<open>
  C8, on \<open>saveLocation\<close> as the spec describes it. An \<^verbatim>\<open>update-location\<close> message whose
  \<^verbatim>\<open>driverId\<close> is the non-empty string \<open>D\<close>: the handler issues one call of
  \<open>saveLocation\<close>; whether it succeeds or fails, the status of every driver in the store is
  what it was (unset for a record the call creates); on success the record of \<open>D\<close> differs
  in lastSeen and coordinates only, and no other record changes.
\<close>

theorem update_location_keeps_status:
  assumes "get_prop data ''driverId'' = Inr (JStr D)" and "D \<noteq> []"
    and "get_prop data ''coordinates'' = Inr c"
  shows "\<exists>s'. update_location sid data t ok s = (Returned, s') \<and>
    db_calls s' = db_calls s @ [SaveLocation (JStr D) c t] \<and>
    (\<forall>k. Option.bind (findOne k (locations s')) status =
         Option.bind (findOne k (locations s)) status) \<and>
    (\<forall>r. findOne (JStr D) (locations s) = Some r \<longrightarrow>
       findOne (JStr D) (locations s') =
         Some (if ok then r\<lparr>lastSeen := Some t, coordinates := Some c\<rparr> else r)) \<and>
    (\<forall>k. k \<noteq> JStr D \<longrightarrow> findOne k (locations s') = findOne k (locations s))"
proof -
  have "truthy (JStr D)" using assms(2) by simp
  from update_location_accepted [OF assms(1) this assms(3), of sid t ok s]
  show ?thesis
    by (simp add: status_saveLocation findOne_saveLocation_same findOne_saveLocation_other)
qed

theorem update_location_keeps_status_witness:
  "get_prop (JObj [(''driverId'', JStr ''d1''), (''coordinates'', JObj [(''latitude'', JNum 1),
      (''longitude'', JNum 2)])]) ''driverId'' = Inr (JStr ''d1'') \<and>
   ''d1'' \<noteq> [] \<and>
   (\<exists>s'. update_location ''a'' (JObj [(''driverId'', JStr ''d1''),
        (''coordinates'', JObj [(''latitude'', JNum 1), (''longitude'', JNum 2)])]) 7 True
        driver_a_online = (Returned, s') \<and>
      findOne (JStr ''d1'') (locations s') =
        Some \<lparr>driverId = JStr ''d1'', status = Some Online, lastSeen = Some 7,
          coordinates = Some (JObj [(''latitude'', JNum 1), (''longitude'', JNum 2)])\<rparr>)"
proof -
  let ?c = "JObj [(''latitude'', JNum 1), (''longitude'', JNum 2)]"
  let ?data = "JObj [(''driverId'', JStr ''d1''), (''coordinates'', ?c)]"
  have h1: "get_prop ?data ''driverId'' = Inr (JStr ''d1'')" by simp
  have h2: "''d1'' \<noteq> []" by simp
  have h3: "get_prop ?data ''coordinates'' = Inr ?c" by simp
  have f: "findOne (JStr ''d1'') (locations driver_a_online) =
      Some \<lparr>driverId = JStr ''d1'', status = Some Online, lastSeen = Some 5,
            coordinates = None\<rparr>"
    by (simp add: driver_a_online_eq findOne_def)
  from update_location_keeps_status [OF h1 h2 h3, of "''a''" 7 True driver_a_online]
  show ?thesis using h1 f by auto
qed

subsection \<open>C9: repeated check-ins\<close>

text \<open>
  C9. On a store with at most one record of \<open>D\<close>, socket \<open>sid\<close> checks in as \<open>D\<close> and the
  write succeeds: there is exactly one record of \<open>D\<close>, online. After any number of further
  \<^verbatim>\<open>driver-active\<close> messages of \<open>sid\<close> for \<open>D\<close>, each with a write that succeeds or fails,
  there is still exactly one record of \<open>D\<close>; it is the same record but for lastSeen, so
  still online; lastSeen is the time of the latest write that succeeded; the other records
  and the number of records are unchanged.
\<close>

theorem repeated_check_in_keeps_online:
  fixes s0 :: server and tos :: "(nat \<times> bool) list" and t0 :: nat
  assumes "get_prop data ''driverId'' = Inr (JStr D)" and "D \<noteq> []"
    and "sid \<in> set (connected s0)"
    and "countDocuments (JStr D) (locations s0) \<le> 1"
  defines "s1 \<equiv> step (DriverActive sid data t0 True) s0"
  defines "s' \<equiv> run (map (\<lambda>(t, ok). DriverActive sid data t ok) tos) s1"
  shows "\<exists>r. findOne (JStr D) (locations s1) = Some r \<and>
    status r = Some Online \<and> lastSeen r = Some t0 \<and>
    countDocuments (JStr D) (locations s1) = 1 \<and>
    countDocuments (JStr D) (locations s') = 1 \<and>
    findOne (JStr D) (locations s') =
      Some (r\<lparr>lastSeen := if filter snd tos = [] then Some t0
                          else Some (fst (last (filter snd tos)))\<rparr>) \<and>
    filter (\<lambda>r. driverId r \<noteq> JStr D) (locations s') =
      filter (\<lambda>r. driverId r \<noteq> JStr D) (locations s1) \<and>
    length (locations s') = length (locations s1)"
proof -
  have td: "truthy (JStr D)" using assms(2) by simp
  have s1: "s1 = snd (driver_active sid data t0 True s0)"
    using assms(3) by (simp add: s1_def)
  have c1: "sid \<in> set (connected s1)"
    using assms(3) by (simp add: s1 connected_driver_active)
  have n1: "countDocuments (JStr D) (locations s1) = 1"
    using assms(4)
    by (simp add: s1 driver_active_accepted [OF assms(1) td to_string_exn_JStr]
        countDocuments_findOneAndUpdate_same findOne_None_iff)
  have "\<exists>r. findOne (JStr D) (locations s1) = Some r \<and>
      status r = Some Online \<and> lastSeen r = Some t0"
    by (simp add: s1 driver_active_accepted [OF assms(1) td to_string_exn_JStr] findOne_findOneAndUpdate_same
        split: option.split)
  then obtain r where r: "findOne (JStr D) (locations s1) = Some r"
    "status r = Some Online" "lastSeen r = Some t0"
    by blast
  from check_in_repeatedly [OF assms(1,2) c1 n1 r(1,2), of tos]
  show ?thesis using r n1 unfolding s'_def by auto
qed

theorem repeated_check_in_keeps_online_witness:
  "get_prop (JObj [(''driverId'', JStr ''d1'')]) ''driverId'' = Inr (JStr ''d1'') \<and>
   ''d1'' \<noteq> [] \<and> ''a'' \<in> set (connected two_sockets) \<and>
   countDocuments (JStr ''d1'') (locations two_sockets) \<le> 1 \<and>
   step (DriverActive ''a'' (JObj [(''driverId'', JStr ''d1'')]) 5 True) two_sockets =
     driver_a_online \<and>
   locations (run (map (\<lambda>(t, ok). DriverActive ''a'' (JObj [(''driverId'', JStr ''d1'')]) t ok)
       [(6, True), (7, False)]) driver_a_online) =
     [\<lparr>driverId = JStr ''d1'', status = Some Online, lastSeen = Some 6, coordinates = None\<rparr>]"
proof -
  let ?data = "JObj [(''driverId'', JStr ''d1'')]"
  let ?s' = "run (map (\<lambda>(t, ok). DriverActive ''a'' ?data t ok) [(6, True), (7, False)])
      driver_a_online"
  have h1: "get_prop ?data ''driverId'' = Inr (JStr ''d1'')" by simp
  have h2: "''d1'' \<noteq> []" by simp
  have h3: "''a'' \<in> set (connected two_sockets)"
    by (simp add: two_sockets_eq connected_def)
  have h4: "countDocuments (JStr ''d1'') (locations two_sockets) \<le> 1"
    by (simp add: two_sockets_eq countDocuments_def)
  have s1: "step (DriverActive ''a'' ?data 5 True) two_sockets = driver_a_online"
    by (simp add: driver_a_online_def)
  have f: "findOne (JStr ''d1'') (locations driver_a_online) =
      Some \<lparr>driverId = JStr ''d1'', status = Some Online, lastSeen = Some 5,
            coordinates = None\<rparr>"
    and n: "length (locations driver_a_online) = 1"
    by (simp_all add: driver_a_online_eq findOne_def)
  from repeated_check_in_keeps_online [OF h1 h2 h3 h4, of 5 "[(6, True), (7, False)]"]
  have "findOne (JStr ''d1'') (locations ?s') =
      Some \<lparr>driverId = JStr ''d1'', status = Some Online, lastSeen = Some 6,
            coordinates = None\<rparr> \<and> length (locations ?s') = 1"
    unfolding s1 using f n by auto
  then have "locations ?s' =
     [\<lparr>driverId = JStr ''d1'', status = Some Online, lastSeen = Some 6, coordinates = None\<rparr>]"
    by (cases "locations ?s'") (auto simp: findOne_def split: if_splits)
  with h1 h3 h4 s1 show ?thesis by simp
qed

subsection \<open>C10: offline without ever having been online\<close>

text \<open>
  C10. A check-in with the non-empty string \<open>D\<close> whose store write fails: nothing is
  saved and nothing is emitted, yet the socket is bound to \<open>D\<close>. When that socket then
  disconnects, the handler issues the offline update of \<open>D\<close>, and when this call succeeds
  it emits \<^verbatim>\<open>status-update\<close> with \<open>{driverId: D, status: offline}\<close> to the sockets still
  connected, although the store has no record of \<open>D\<close> and creates none.
\<close>

theorem unsaved_driver_goes_offline:
  assumes "get_prop data ''driverId'' = Inr (JStr D)" and "D \<noteq> []"
    and "sid \<in> set (connected s)"
  shows "\<exists>s1 s2. driver_active sid data t1 False s = (Returned, s1) \<and>
    locations s1 = locations s \<and> emitted s1 = emitted s \<and>
    db_calls s1 = db_calls s @ [FindOneAndUpdate (JStr D) Online t1 True] \<and>
    bound_driver sid s1 = Some (JStr D) \<and>
    disconnect sid t2 ok2 s1 = (Returned, s2) \<and>
    db_calls s2 = db_calls s1 @ [FindOneAndUpdate (JStr D) Offline t2 False] \<and>
    (ok2 \<longrightarrow>
       emitted s2 = emitted s @
         [\<lparr>event = ''status-update'',
           payload = JObj [(''driverId'', JStr D), (''status'', JStr ''offline'')],
           recipients = filter (\<lambda>i. i \<noteq> sid) (connected s)\<rparr>] \<and>
       (findOne (JStr D) (locations s) = None \<longrightarrow> locations s2 = locations s))"
proof -
  have td: "truthy (JStr D)" using assms(2) by simp
  define s1 where "s1 = s\<lparr>sockets := set_driverId sid (JStr D) (sockets s),
            console := console s @ [DriverNowOnline (JStr D), ErrorSettingOnline],
            db_calls := db_calls s @ [FindOneAndUpdate (JStr D) Online t1 True]\<rparr>"
  have r1: "driver_active sid data t1 False s = (Returned, s1)"
    by (simp add: driver_active_accepted [OF assms(1) td to_string_exn_JStr] s1_def)
  have "sockets s1 = set_driverId sid (JStr D) (sockets s)" by (simp add: s1_def)
  then have "bound_driver sid s1 = map_option (\<lambda>_. JStr D) (bound_driver sid s)"
    by (simp add: bound_driver_set)
  moreover from assms(3) obtain b where "bound_driver sid s = Some b"
    using bound_driver_connected [of sid s] by auto
  ultimately have b1: "bound_driver sid s1 = Some (JStr D)" by simp
  have f1: "locations s1 = locations s" "emitted s1 = emitted s" "connected s1 = connected s"
    "db_calls s1 = db_calls s @ [FindOneAndUpdate (JStr D) Online t1 True]"
    by (simp_all add: s1_def connected_def)
  define s2 where "s2 = snd (disconnect sid t2 ok2 s1)"
  have r2: "disconnect sid t2 ok2 s1 = (Returned, s2)"
    by (simp add: s2_def disconnect_bound [OF b1 td to_string_exn_JStr])
  have s2: "db_calls s2 = db_calls s1 @ [FindOneAndUpdate (JStr D) Offline t2 False]"
    "ok2 \<longrightarrow>
       emitted s2 = emitted s1 @
         [\<lparr>event = ''status-update'',
           payload = JObj [(''driverId'', JStr D), (''status'', JStr ''offline'')],
           recipients = filter (\<lambda>i. i \<noteq> sid) (connected s1)\<rparr>] \<and>
       (findOne (JStr D) (locations s1) = None \<longrightarrow> locations s2 = locations s1)"
    by (simp_all add: s2_def disconnect_bound [OF b1 td to_string_exn_JStr] status_payload_def
        findOneAndUpdate_absent)
  show ?thesis using r1 r2 b1 f1 s2 by auto
qed

theorem unsaved_driver_goes_offline_witness:
  "get_prop (JObj [(''driverId'', JStr ''d1'')]) ''driverId'' = Inr (JStr ''d1'') \<and>
   ''d1'' \<noteq> [] \<and> ''a'' \<in> set (connected two_sockets) \<and>
   (\<exists>s1 s2. driver_active ''a'' (JObj [(''driverId'', JStr ''d1'')]) 5 False two_sockets =
        (Returned, s1) \<and>
      locations s1 = [] \<and> emitted s1 = [] \<and> bound_driver ''a'' s1 = Some (JStr ''d1'') \<and>
      disconnect ''a'' 9 True s1 = (Returned, s2) \<and>
      locations s2 = [] \<and>
      emitted s2 =
        [\<lparr>event = ''status-update'',
          payload = JObj [(''driverId'', JStr ''d1''), (''status'', JStr ''offline'')],
          recipients = [''b'']\<rparr>])"
proof -
  have h1: "get_prop (JObj [(''driverId'', JStr ''d1'')]) ''driverId'' = Inr (JStr ''d1'')"
    by simp
  have h2: "''d1'' \<noteq> []" by simp
  have e: "connected two_sockets = [''a'', ''b'']" "locations two_sockets = []"
    "emitted two_sockets = []"
    by (simp_all add: two_sockets_eq connected_def)
  have h3: "''a'' \<in> set (connected two_sockets)" unfolding e by simp
  have f: "findOne (JStr ''d1'') (locations two_sockets) = None"
    unfolding e by (simp add: findOne_def)
  from unsaved_driver_goes_offline [OF h1 h2 h3, of 5 9 True]
  show ?thesis using h1 h3 e f by auto
qed

end
